theory Spec2Isabelle
  imports Complex_Main "HOL-Library.AList"
begin

section \<open>Python values\<close>

text \<open>
  The configuration is what \<^verbatim>\<open>yaml.safe_load\<close> returns: a tree of dictionaries, lists and
  scalars. A dictionary is an association list read through \<open>map_of\<close> (the first binding of
  a key is the binding); \<open>AList.update\<close> is item assignment and \<open>AList.delete\<close> is
  \<^verbatim>\<open>pop\<close> with a default. A finite float is the rational it denotes; the three special
  floats are kept apart because comparisons treat them differently. Strings are lists of
  8-bit characters, read as the code points 0 to 255.
\<close>

datatype pyfloat = Finite rat | PosInf | NegInf | NaN

datatype cval =
    VNone
  | VBool bool
  | VInt int
  | VFloat pyfloat
  | VStr string
  | VList "cval list"
  | VDict "(string \<times> cval) list"

type_synonym dict = "(string \<times> cval) list"

text \<open>
  Exceptions of class \<^verbatim>\<open>Exception\<close>. \<open>LibraryError\<close> stands for any exception raised
  inside the inference library (tokenizer, model, torch); its argument names it.
\<close>

datatype exn =
    KeyError string
  | TypeError
  | AttributeError
  | IndexError
  | LibraryError string

definition exn_bind :: "exn + 'a \<Rightarrow> ('a \<Rightarrow> exn + 'b) \<Rightarrow> exn + 'b" where
  "exn_bind m f = (case m of Inl e \<Rightarrow> Inl e | Inr x \<Rightarrow> f x)"

text \<open>\<^verbatim>\<open>value[key]\<close> with a string key: only a dictionary can be subscripted by a string.\<close>

fun getitem :: "cval \<Rightarrow> string \<Rightarrow> exn + cval" where
  "getitem (VDict d) k = (case map_of d k of Some v \<Rightarrow> Inr v | None \<Rightarrow> Inl (KeyError k))"
| "getitem v k = Inl TypeError"

text \<open>
  Numbers as Python compares them with an integer constant: \<^verbatim>\<open>bool\<close> is a subclass of
  \<^verbatim>\<open>int\<close>, an \<^verbatim>\<open>int\<close> and a finite float compare by value, NaN compares false
  with everything, and any other operand raises TypeError.
\<close>

fun as_float :: "cval \<Rightarrow> pyfloat option" where
  "as_float (VBool b) = Some (Finite (if b then 1 else 0))"
| "as_float (VInt i) = Some (Finite (of_int i))"
| "as_float (VFloat f) = Some f"
| "as_float v = None"

fun float_lt :: "pyfloat \<Rightarrow> int \<Rightarrow> bool" where
  "float_lt (Finite q) n = (q < of_int n)"
| "float_lt NegInf n = True"
| "float_lt PosInf n = False"
| "float_lt NaN n = False"

fun float_gt :: "pyfloat \<Rightarrow> int \<Rightarrow> bool" where
  "float_gt (Finite q) n = (q > of_int n)"
| "float_gt NegInf n = False"
| "float_gt PosInf n = True"
| "float_gt NaN n = False"

definition py_lt :: "cval \<Rightarrow> int \<Rightarrow> exn + bool" where
  "py_lt x n = (case as_float x of Some f \<Rightarrow> Inr (float_lt f n) | None \<Rightarrow> Inl TypeError)"

definition py_gt :: "cval \<Rightarrow> int \<Rightarrow> exn + bool" where
  "py_gt x n = (case as_float x of Some f \<Rightarrow> Inr (float_gt f n) | None \<Rightarrow> Inl TypeError)"

text \<open>\<^verbatim>\<open>key_path.split('.')\<close>: the result is never empty.\<close>

fun split_dot :: "string \<Rightarrow> string list" where
  "split_dot [] = [[]]"
| "split_dot (c # cs) =
     (if c = CHR ''.'' then [] # split_dot cs
      else (case split_dot cs of [] \<Rightarrow> [[c]] | w # ws \<Rightarrow> (c # w) # ws))"

section \<open>ConfigManager (src/core/config\_manager.py)\<close>

text \<open>
  Objects that the program holds by reference live in a heap; an address is an index
  into it. \<^verbatim>\<open>self._config\<close> is such a reference, to whatever \<^verbatim>\<open>yaml.safe_load\<close>
  returned: a dictionary for a well-formed file, None for an empty one, a list or a
  scalar for a file that holds one. The values nested below the top level are part of
  the object, so the configuration is a tree. A reference held by a live object is
  always below the length of the heap; the theorems that write through a reference or
  allocate assume it.
\<close>

type_synonym addr = nat
type_synonym heap = "cval list"

record config_manager =
  config_path :: string
  cm_config :: addr

definition get_default_config :: dict where
  "get_default_config =
    [(''model'', VDict
        [(''name'', VStr ''microsoft/DialoGPT-small''),
         (''architecture'', VStr ''transformer''),
         (''max_length'', VInt 1024),
         (''temperature'', VFloat (Finite (7 / 10))),
         (''top_p'', VFloat (Finite (9 / 10))),
         (''device'', VStr ''auto'')]),
     (''training'', VDict
        [(''batch_size'', VInt 4),
         (''learning_rate'', VFloat (Finite (5 / 100000))),
         (''num_epochs'', VInt 3),
         (''warmup_steps'', VInt 500),
         (''gradient_checkpointing'', VBool True),
         (''mixed_precision'', VBool True)]),
     (''data'', VDict
        [(''max_samples'', VInt 10000),
         (''validation_split'', VFloat (Finite (1 / 10))),
         (''preprocessing'', VDict
            [(''lowercase'', VBool False),
             (''remove_special_chars'', VBool False),
             (''max_token_length'', VInt 512)])]),
     (''inference'', VDict
        [(''batch_size'', VInt 1),
         (''beam_size'', VInt 1),
         (''max_new_tokens'', VInt 128),
         (''do_sample'', VBool True),
         (''early_stopping'', VBool True)]),
     (''paths'', VDict
        [(''data_dir'', VStr ''./data''),
         (''model_dir'', VStr ''./models''),
         (''logs_dir'', VStr ''./logs''),
         (''cache_dir'', VStr ''./cache'')]),
     (''api'', VDict
        [(''host'', VStr ''0.0.0.0''),
         (''port'', VInt 8000),
         (''cors_origins'', VList [VStr ''http://localhost:3000''])]),
     (''logging'', VDict
        [(''level'', VStr ''INFO''),
         (''format'', VStr ''{time} | {level} | {name}:{function}:{line} - {message}''),
         (''file_rotation'', VStr ''1 day''),
         (''file_retention'', VStr ''30 days'')]),
     (''privacy'', VDict
        [(''local_processing'', VBool True),
         (''data_encryption'', VBool False),
         (''anonymize_logs'', VBool True),
         (''retention_days'', VInt 90)])]"

definition get_config :: "config_manager \<Rightarrow> addr" where
  "get_config self = cm_config self"

text \<open>The loop \<^verbatim>\<open>for key in keys: value = value[key]\<close> of \<^verbatim>\<open>get_value\<close>.\<close>

fun get_value_loop :: "cval \<Rightarrow> string list \<Rightarrow> exn + cval" where
  "get_value_loop v [] = Inr v"
| "get_value_loop v (key # keys) =
     (case getitem v key of Inl e \<Rightarrow> Inl e | Inr v' \<Rightarrow> get_value_loop v' keys)"

text \<open>\<^verbatim>\<open>except (KeyError, TypeError): return default\<close>; any other exception propagates.\<close>

definition get_value :: "heap \<Rightarrow> config_manager \<Rightarrow> string \<Rightarrow> cval \<Rightarrow> exn + cval" where
  "get_value h self key_path dflt =
     (case get_value_loop (h ! cm_config self) (split_dot key_path) of
        Inr v \<Rightarrow> Inr v
      | Inl (KeyError k) \<Rightarrow> Inr dflt
      | Inl TypeError \<Rightarrow> Inr dflt
      | Inl e \<Rightarrow> Inl e)"

text \<open>
  \<^verbatim>\<open>set_value\<close> walks \<^verbatim>\<open>keys[:-1]\<close>, creating an empty dictionary under each missing
  key, and assigns under \<^verbatim>\<open>keys[-1]\<close>. The walk mutates the nested dictionaries in
  place; here each level returns its updated value to the level above. When the walk
  stands on a value that is not a dictionary (the configuration itself, when it is None,
  a list or a scalar, or a nested value), the membership test, the subscript or the item
  assignment with a string key raises TypeError; every key before it was present, so
  nothing has been created by then and the configuration is as it was.
\<close>

fun set_value_loop :: "cval \<Rightarrow> string list \<Rightarrow> cval \<Rightarrow> exn + cval" where
  "set_value_loop config [] v = Inl IndexError"
| "set_value_loop (VDict d) [key] v = Inr (VDict (AList.update key v d))"
| "set_value_loop (VDict d) (key # keys) v =
     (case set_value_loop (case map_of d key of None \<Rightarrow> VDict [] | Some c \<Rightarrow> c) keys v of
        Inl e \<Rightarrow> Inl e
      | Inr sub \<Rightarrow> Inr (VDict (AList.update key sub d)))"
| "set_value_loop config keys v = Inl TypeError"

definition set_value :: "heap \<Rightarrow> config_manager \<Rightarrow> string \<Rightarrow> cval \<Rightarrow> exn + heap" where
  "set_value h self key_path v =
     (case set_value_loop (h ! cm_config self) (split_dot key_path) v of
        Inl e \<Rightarrow> Inl e
      | Inr config' \<Rightarrow> Inr (h[cm_config self := config']))"

definition required_sections :: "string list" where
  "required_sections = [''model'', ''inference'', ''paths'', ''api'', ''logging'']"

text \<open>
  \<^verbatim>\<open>key in container\<close> for a string key: key membership in a dictionary, element
  membership in a list, substring in a string; None and the numbers are not containers.
\<close>

fun str_in :: "string \<Rightarrow> string \<Rightarrow> bool" where
  "str_in word [] = (word = [])"
| "str_in word (c # cs) = (take (length word) (c # cs) = word \<or> str_in word cs)"

fun contains :: "cval \<Rightarrow> string \<Rightarrow> exn + bool" where
  "contains (VDict d) key = Inr (map_of d key \<noteq> None)"
| "contains (VList xs) key = Inr (VStr key \<in> set xs)"
| "contains (VStr s) key = Inr (str_in key s)"
| "contains v key = Inl TypeError"

text \<open>The loop over \<^verbatim>\<open>required_sections\<close>: true when it returns early.\<close>

fun missing_section :: "cval \<Rightarrow> string list \<Rightarrow> exn + bool" where
  "missing_section config [] = Inr False"
| "missing_section config (section # sections) =
     (case contains config section of
        Inl e \<Rightarrow> Inl e
      | Inr True \<Rightarrow> missing_section config sections
      | Inr False \<Rightarrow> Inr True)"

text \<open>\<^verbatim>\<open>self._config[section][key]\<close>.\<close>

definition config_item :: "cval \<Rightarrow> string \<Rightarrow> string \<Rightarrow> exn + cval" where
  "config_item config section key =
     exn_bind (getitem config section) (\<lambda>s. getitem s key)"

text \<open>\<^verbatim>\<open>x < lo or x > hi\<close>, the second comparison evaluated only when the first is false.\<close>

definition lt_or_gt :: "cval \<Rightarrow> int \<Rightarrow> int \<Rightarrow> exn + bool" where
  "lt_or_gt x lo hi =
     (case py_lt x lo of Inl e \<Rightarrow> Inl e | Inr True \<Rightarrow> Inr True | Inr False \<Rightarrow> py_gt x hi)"

definition validate_config :: "heap \<Rightarrow> config_manager \<Rightarrow> exn + bool" where
  "validate_config h self =
     (let config = h ! cm_config self in
      case missing_section config required_sections of
        Inl e \<Rightarrow> Inl e
      | Inr True \<Rightarrow> Inr False
      | Inr False \<Rightarrow>
        (case exn_bind (config_item config ''model'' ''temperature'') (\<lambda>t. lt_or_gt t 0 2) of
           Inl e \<Rightarrow> Inl e
         | Inr True \<Rightarrow> Inr False
         | Inr False \<Rightarrow>
             (case exn_bind (config_item config ''api'' ''port'') (\<lambda>p. lt_or_gt p 1 65535) of
                Inl e \<Rightarrow> Inl e
              | Inr True \<Rightarrow> Inr False
              | Inr False \<Rightarrow> Inr True)))"

section \<open>Strings\<close>

text \<open>
  \<^verbatim>\<open>str.isspace\<close>, \<^verbatim>\<open>str.strip()\<close> and \<^verbatim>\<open>str.lower()\<close> on the code points 0 to 255:
  the whitespace characters there are 9 to 13, 28 to 32, 133 and 160, and the cased
  capitals are A to Z and 192 to 222 without the multiplication sign 215.
\<close>

definition isspace :: "char \<Rightarrow> bool" where
  "isspace c =
     (let n = (of_char c :: nat)
      in (9 \<le> n \<and> n \<le> 13) \<or> (28 \<le> n \<and> n \<le> 32) \<or> n = 133 \<or> n = 160)"

definition strip :: "string \<Rightarrow> string" where
  "strip s = rev (dropWhile isspace (rev (dropWhile isspace s)))"

definition lower_char :: "char \<Rightarrow> char" where
  "lower_char c =
     (let n = (of_char c :: nat)
      in if (65 \<le> n \<and> n \<le> 90) \<or> (192 \<le> n \<and> n \<le> 222 \<and> n \<noteq> 215)
         then char_of (n + 32) else c)"

definition lower :: "string \<Rightarrow> string" where
  "lower s = map lower_char s"

text \<open>\<^verbatim>\<open>" ".join(parts)\<close>.\<close>

fun join_space :: "string list \<Rightarrow> string" where
  "join_space [] = []"
| "join_space [p] = p"
| "join_space (p # ps) = p @ '' '' @ join_space ps"

text \<open>\<^verbatim>\<open>xs[-n:]\<close> for a positive \<open>n\<close>.\<close>

definition last_n :: "nat \<Rightarrow> 'a list \<Rightarrow> 'a list" where
  "last_n n xs = drop (length xs - n) xs"

text \<open>\<^verbatim>\<open>d.get(key, default)\<close>: a method of dictionaries only.\<close>

fun dict_get :: "cval \<Rightarrow> string \<Rightarrow> cval \<Rightarrow> exn + cval" where
  "dict_get (VDict d) k dflt = Inr (case map_of d k of Some v \<Rightarrow> v | None \<Rightarrow> dflt)"
| "dict_get v k dflt = Inl AttributeError"

section \<open>The inference library and the runtime\<close>

text \<open>
  The tokenizer, the language model and torch are third-party code: they are parameters,
  and each call may raise. \<open>tok_encode\<close> is \<^verbatim>\<open>tokenizer.encode(text, max_length=..)\<close>
  moved to the device, \<open>lm_generate\<close> is \<^verbatim>\<open>model.generate(inputs, **kwargs)[0]\<close>
  with the sampler's randomness as its last argument, \<open>lm_parameters\<close> is the parameter
  count. \<open>exc_str\<close> is \<^verbatim>\<open>str(e)\<close>, the runtime's rendering of an exception.
\<close>

record tokenizer =
  tok_encode :: "string \<Rightarrow> cval \<Rightarrow> exn + nat list"
  tok_decode :: "nat list \<Rightarrow> exn + string"
  tok_eos_token_id :: cval

record generate_kwargs =
  kw_max_new_tokens :: cval
  kw_temperature :: cval
  kw_top_p :: cval
  kw_do_sample :: cval
  kw_pad_token_id :: cval
  kw_eos_token_id :: cval

record causal_lm =
  lm_generate :: "nat list \<Rightarrow> generate_kwargs \<Rightarrow> nat \<Rightarrow> exn + nat list"
  lm_parameters :: "exn + int"

record runtime =
  cuda_is_available :: bool
  mps_is_available :: bool
  cuda_empty_cache :: "exn option"
  tokenizer_from_pretrained :: "cval \<Rightarrow> exn + tokenizer"
  model_from_pretrained :: "cval \<Rightarrow> cval \<Rightarrow> exn + causal_lm"
  exc_str :: "exn \<Rightarrow> string"

section \<open>AIEngine (src/core/ai\_engine.py)\<close>

text \<open>
  \<open>config\<close> is \<^verbatim>\<open>self.config\<close>, the reference that \<^verbatim>\<open>get_config()\<close> returned when
  the engine was built. \<open>fallback_responses\<close> is \<open>None\<close> while the attribute does not
  exist: only \<^verbatim>\<open>_setup_fallback_system\<close> creates it.
\<close>

record ai_engine =
  config_manager :: config_manager
  config :: addr
  tokenizer :: "tokenizer option"
  model :: "causal_lm option"
  device :: cval
  fallback_responses :: "string list option"

definition get_device :: "runtime \<Rightarrow> heap \<Rightarrow> addr \<Rightarrow> exn + cval" where
  "get_device rt h cfg =
     exn_bind (config_item (h ! cfg) ''model'' ''device'') (\<lambda>device_config.
       Inr (if device_config = VStr ''auto''
            then (if cuda_is_available rt then VStr ''cuda''
                  else if mps_is_available rt then VStr ''mps''
                  else VStr ''cpu'')
            else device_config))"

definition FALLBACK_RESPONSES :: "string list" where
  "FALLBACK_RESPONSES =
     [''I'm currently in development mode. How can I help you today?'',
      ''I'm learning and growing! What would you like to discuss?'',
      ''I'm here to assist you. What's on your mind?'',
      ''Thank you for your patience as I develop my capabilities.'']"

definition setup_fallback_system :: "ai_engine \<Rightarrow> ai_engine" where
  "setup_fallback_system self =
     self\<lparr>model := None, tokenizer := None,
          fallback_responses := Some FALLBACK_RESPONSES\<rparr>"

text \<open>The \<^verbatim>\<open>try\<close> block of \<^verbatim>\<open>_load_model\<close>, and the method with its \<^verbatim>\<open>except\<close>.\<close>

definition load_model_try :: "runtime \<Rightarrow> heap \<Rightarrow> ai_engine \<Rightarrow> exn + ai_engine" where
  "load_model_try rt h self =
     exn_bind (getitem (h ! config self) ''model'') (\<lambda>section.
     exn_bind (dict_get section ''name'' (VStr ''microsoft/DialoGPT-small'')) (\<lambda>model_name.
     exn_bind (tokenizer_from_pretrained rt model_name) (\<lambda>tok.
     exn_bind (model_from_pretrained rt model_name (device self)) (\<lambda>m.
       Inr (self\<lparr>tokenizer := Some tok, model := Some m\<rparr>)))))"

definition load_model :: "runtime \<Rightarrow> heap \<Rightarrow> ai_engine \<Rightarrow> ai_engine" where
  "load_model rt h self =
     (case load_model_try rt h self of
        Inr self' \<Rightarrow> self'
      | Inl e \<Rightarrow> setup_fallback_system self)"

text \<open>\<^verbatim>\<open>AIEngine.__init__\<close>; \<^verbatim>\<open>_get_device\<close> runs outside any \<^verbatim>\<open>try\<close>.\<close>

definition ai_engine_init :: "runtime \<Rightarrow> heap \<Rightarrow> config_manager \<Rightarrow> exn + ai_engine" where
  "ai_engine_init rt h cm =
     exn_bind (get_device rt h (get_config cm)) (\<lambda>dev.
       Inr (load_model rt h
              \<lparr>config_manager = cm, config = get_config cm, tokenizer = None,
               model = None, device = dev, fallback_responses = None\<rparr>))"

definition CLARIFICATION :: string where
  "CLARIFICATION = ''I didn't catch that. Could you please repeat?''"

definition APOLOGY :: string where
  "APOLOGY = ''I apologize, but I encountered an error. Please try again.''"

definition GREETING :: string where
  "GREETING = ''Hello! I'm your personal AI assistant. How can I help you today?''"

definition DOING_WELL :: string where
  "DOING_WELL = ''I'm doing well, thank you for asking! I'm here and ready to help.''"

definition CAPABILITIES :: string where
  "CAPABILITIES = ''I'm currently in development, but I'm designed to be your personal AI assistant. I can chat with you and help with various tasks as I continue to learn!''"

definition NOT_SURE :: string where
  "NOT_SURE = ''I'm not sure how to respond to that.''"

text \<open>
  \<^verbatim>\<open>random.choice(self.fallback_responses)\<close>: AttributeError when the attribute was
  never created, IndexError on an empty list, else the element the generator picks
  (\<open>rnd\<close> is the generator's draw).
\<close>

definition random_choice :: "string list option \<Rightarrow> nat \<Rightarrow> exn + string" where
  "random_choice seq rnd =
     (case seq of
        None \<Rightarrow> Inl AttributeError
      | Some xs \<Rightarrow> if xs = [] then Inl IndexError else Inr (xs ! (rnd mod length xs)))"

definition fallback_response :: "ai_engine \<Rightarrow> string \<Rightarrow> nat \<Rightarrow> exn + string" where
  "fallback_response self user_input rnd =
     (let user_lower = lower user_input in
      if list_ex (\<lambda>word. str_in word user_lower) [''hello'', ''hi'', ''hey'']
      then Inr GREETING
      else if list_ex (\<lambda>word. str_in word user_lower) [''how are you'', ''how do you feel'']
      then Inr DOING_WELL
      else if list_ex (\<lambda>word. str_in word user_lower)
                [''what can you do'', ''help'', ''capabilities'']
      then Inr CAPABILITIES
      else random_choice (fallback_responses self) rnd)"

text \<open>
  The keyword arguments of \<^verbatim>\<open>self.model.generate\<close>, evaluated left to right: every one
  of them is read from the configuration or from the tokenizer.
\<close>

definition generation_kwargs :: "heap \<Rightarrow> ai_engine \<Rightarrow> tokenizer \<Rightarrow> exn + generate_kwargs" where
  "generation_kwargs h self tok =
     exn_bind (config_item (h ! config self) ''inference'' ''max_new_tokens'') (\<lambda>mnt.
     exn_bind (config_item (h ! config self) ''model'' ''temperature'') (\<lambda>temp.
     exn_bind (config_item (h ! config self) ''model'' ''top_p'') (\<lambda>tp.
     exn_bind (config_item (h ! config self) ''inference'' ''do_sample'') (\<lambda>ds.
       Inr \<lparr>kw_max_new_tokens = mnt, kw_temperature = temp, kw_top_p = tp,
            kw_do_sample = ds, kw_pad_token_id = tok_eos_token_id tok,
            kw_eos_token_id = tok_eos_token_id tok\<rparr>))))"

text \<open>The text handed to the tokenizer: the last five history entries, then the input.\<close>

definition full_input :: "string \<Rightarrow> string list option \<Rightarrow> string" where
  "full_input user_input conversation_history =
     (case conversation_history of
        None \<Rightarrow> user_input
      | Some hist \<Rightarrow>
          if hist = [] then user_input
          else join_space (last_n 5 hist) @ '' '' @ user_input)"

definition generate_model_response ::
  "heap \<Rightarrow> ai_engine \<Rightarrow> string \<Rightarrow> string list option \<Rightarrow> nat \<Rightarrow> exn + string" where
  "generate_model_response h self user_input conversation_history rnd =
     (case tokenizer self of
        None \<Rightarrow> Inl AttributeError
      | Some tok \<Rightarrow>
          exn_bind (config_item (h ! config self) ''model'' ''max_length'') (\<lambda>max_length.
          exn_bind (tok_encode tok (full_input user_input conversation_history) max_length)
            (\<lambda>inputs.
            case model self of
              None \<Rightarrow> Inl AttributeError
            | Some m \<Rightarrow>
                exn_bind (generation_kwargs h self tok) (\<lambda>kwargs.
                exn_bind (lm_generate m inputs kwargs rnd) (\<lambda>outputs.
                exn_bind (tok_decode tok (drop (length inputs) outputs)) (\<lambda>decoded.
                  let response = strip decoded
                  in Inr (if response \<noteq> [] then response else NOT_SURE)))))))"

definition generate_response ::
  "heap \<Rightarrow> ai_engine \<Rightarrow> string \<Rightarrow> string list option \<Rightarrow> nat \<Rightarrow> string" where
  "generate_response h self user_input conversation_history rnd =
     (if strip user_input = [] then CLARIFICATION
      else
        (case (case model self of
                 None \<Rightarrow> fallback_response self user_input rnd
               | Some m \<Rightarrow> generate_model_response h self user_input conversation_history rnd)
         of Inr r \<Rightarrow> r
          | Inl e \<Rightarrow> APOLOGY))"

definition get_model_info :: "heap \<Rightarrow> ai_engine \<Rightarrow> exn + dict" where
  "get_model_info h self =
     (case model self of
        None \<Rightarrow> Inr [(''status'', VStr ''fallback''), (''model_name'', VStr ''none'')]
      | Some m \<Rightarrow>
          exn_bind (getitem (h ! config self) ''model'') (\<lambda>section.
          exn_bind (dict_get section ''name'' VNone) (\<lambda>name.
          exn_bind (lm_parameters m) (\<lambda>n.
            Inr [(''status'', VStr ''loaded''), (''model_name'', name),
                 (''device'', device self), (''parameters'', VInt n)]))))"

definition clear_cache :: "runtime \<Rightarrow> ai_engine \<Rightarrow> exn + unit" where
  "clear_cache rt self =
     (if device self = VStr ''cuda''
      then (case cuda_empty_cache rt of Some e \<Rightarrow> Inl e | None \<Rightarrow> Inr ())
      else Inr ())"

section \<open>The API server (src/api/server.py)\<close>

record chat_message =
  role :: string
  content :: string
  msg_timestamp :: "rat option"

record chat_request =
  message :: string
  conversation_history :: "chat_message list option"
  temperature :: "rat option"
  max_tokens :: "int option"

record chat_response =
  response :: string
  timestamp :: rat
  model_info :: dict

record health_response =
  status :: string
  health_timestamp :: rat
  version :: string
  model_status :: cval

text \<open>
  What a handler hands to the framework: a value, the \<^verbatim>\<open>HTTPException\<close> it raised
  (status code and detail), or any other exception, which it let through.
\<close>

datatype 'a outcome = Returned 'a | HTTPException nat string | Uncaught exn

text \<open>\<^verbatim>\<open>except Exception as e: raise HTTPException(status_code=500, detail=str(e))\<close>.\<close>

definition except_500 :: "runtime \<Rightarrow> exn + 'a \<Rightarrow> 'a outcome" where
  "except_500 rt r =
     (case r of Inr v \<Rightarrow> Returned v | Inl e \<Rightarrow> HTTPException 500 (exc_str rt e))"

text \<open>
  The handlers; \<open>now\<close> is \<^verbatim>\<open>time.time()\<close>. \<open>*_try\<close> is the body of the handler's
  \<^verbatim>\<open>try\<close> block. \<^verbatim>\<open>health_check\<close> has no \<^verbatim>\<open>try\<close>.
\<close>

definition health_check :: "heap \<Rightarrow> ai_engine \<Rightarrow> rat \<Rightarrow> health_response outcome" where
  "health_check h eng now =
     (case get_model_info h eng of
        Inl e \<Rightarrow> Uncaught e
      | Inr info \<Rightarrow>
          Returned \<lparr>status = ''healthy'', health_timestamp = now, version = ''1.0.0'',
                    model_status = (case map_of info ''status'' of
                                      Some s \<Rightarrow> s | None \<Rightarrow> VStr ''unknown'')\<rparr>)"

definition chat_try ::
  "heap \<Rightarrow> ai_engine \<Rightarrow> chat_request \<Rightarrow> nat \<Rightarrow> rat \<Rightarrow> exn + chat_response" where
  "chat_try h eng request rnd now =
     (let history =
        (case conversation_history request of
           None \<Rightarrow> []
         | Some msgs \<Rightarrow> map (\<lambda>msg. role msg @ '': '' @ content msg) (last_n 10 msgs));
          reply = generate_response h eng (message request) (Some history) rnd
      in exn_bind (get_model_info h eng) (\<lambda>info.
           Inr \<lparr>response = reply, timestamp = now, model_info = info\<rparr>))"

definition chat ::
  "runtime \<Rightarrow> heap \<Rightarrow> ai_engine \<Rightarrow> chat_request \<Rightarrow> nat \<Rightarrow> rat \<Rightarrow> chat_response outcome" where
  "chat rt h eng request rnd now = except_500 rt (chat_try h eng request rnd now)"

definition get_model_info_endpoint :: "runtime \<Rightarrow> heap \<Rightarrow> ai_engine \<Rightarrow> dict outcome" where
  "get_model_info_endpoint rt h eng = except_500 rt (get_model_info h eng)"

definition clear_model_cache :: "runtime \<Rightarrow> ai_engine \<Rightarrow> dict outcome" where
  "clear_model_cache rt eng =
     except_500 rt
       (exn_bind (clear_cache rt eng) (\<lambda>u.
          Inr [(''status'', VStr ''success''), (''message'', VStr ''Cache cleared'')]))"

text \<open>
  \<^verbatim>\<open>.copy()\<close> is a method of dictionaries and lists: it allocates a new object with
  the same items; on None, a number or a string the attribute lookup raises
  AttributeError. \<^verbatim>\<open>.pop('privacy', None)\<close> changes the dictionary it is called on and
  never raises there; a list's \<^verbatim>\<open>pop\<close> takes no second argument and raises TypeError.
  The handler of GET /config returns the object it built; the heap it leaves behind is
  the second component.
\<close>

definition obj_copy :: "heap \<Rightarrow> addr \<Rightarrow> exn + (addr \<times> heap)" where
  "obj_copy h a =
     (case h ! a of
        VDict d \<Rightarrow> Inr (length h, h @ [VDict d])
      | VList xs \<Rightarrow> Inr (length h, h @ [VList xs])
      | v \<Rightarrow> Inl AttributeError)"

definition obj_pop :: "heap \<Rightarrow> addr \<Rightarrow> string \<Rightarrow> exn + heap" where
  "obj_pop h a key =
     (case h ! a of
        VDict d \<Rightarrow> Inr (h[a := VDict (AList.delete key d)])
      | VList xs \<Rightarrow> Inl TypeError
      | v \<Rightarrow> Inl AttributeError)"

definition get_config_try :: "heap \<Rightarrow> ai_engine \<Rightarrow> (exn + addr) \<times> heap" where
  "get_config_try h eng =
     (case obj_copy h (get_config (config_manager eng)) of
        Inl e \<Rightarrow> (Inl e, h)
      | Inr (cfg, h1) \<Rightarrow>
          (case obj_pop h1 cfg ''privacy'' of
             Inl e \<Rightarrow> (Inl e, h1)
           | Inr h2 \<Rightarrow> (Inr cfg, h2)))"

definition get_config_endpoint :: "runtime \<Rightarrow> heap \<Rightarrow> ai_engine \<Rightarrow> cval outcome \<times> heap" where
  "get_config_endpoint rt h eng =
     (case get_config_try h eng of
        (Inr cfg, h') \<Rightarrow> (Returned (h' ! cfg), h')
      | (Inl e, h') \<Rightarrow> (HTTPException 500 (exc_str rt e), h'))"

section \<open>Notions of the specification\<close>

text \<open>
  A value is outside a range when it is a number that Python finds below the lower or
  above the upper bound; it lies within the range when it is a finite number between the
  bounds, both included.
\<close>

definition is_number :: "cval \<Rightarrow> bool" where
  "is_number x = (as_float x \<noteq> None)"

definition outside_range :: "cval \<Rightarrow> int \<Rightarrow> int \<Rightarrow> bool" where
  "outside_range x lo hi =
     (case as_float x of Some f \<Rightarrow> float_lt f lo \<or> float_gt f hi | None \<Rightarrow> False)"

definition within_range :: "cval \<Rightarrow> int \<Rightarrow> int \<Rightarrow> bool" where
  "within_range x lo hi =
     (case as_float x of
        Some (Finite q) \<Rightarrow> of_int lo \<le> q \<and> q \<le> of_int hi
      | _ \<Rightarrow> False)"

text \<open>The sections the specification lists for the configuration file.\<close>

definition file_sections :: "string list" where
  "file_sections =
     [''model'', ''training'', ''data'', ''inference'', ''paths'', ''api'', ''logging'',
      ''privacy'']"

text \<open>
  A key path prefix addresses a missing key when walking it ends in KeyError, and a
  nested dictionary when the walk arrives at one.
\<close>

definition addresses_missing_or_dict :: "cval \<Rightarrow> string list \<Rightarrow> bool" where
  "addresses_missing_or_dict cfg pfx =
     (case get_value_loop cfg pfx of
        Inl (KeyError k) \<Rightarrow> True
      | Inr (VDict d) \<Rightarrow> True
      | _ \<Rightarrow> False)"

text \<open>The answers of the keyword-matched fallback system.\<close>

definition canned_responses :: "string list" where
  "canned_responses = [GREETING, DOING_WELL, CAPABILITIES] @ FALLBACK_RESPONSES"

text \<open>What the body of a POST /chat response shows of the engine, and its text.\<close>

definition response_status :: "chat_response outcome \<Rightarrow> cval option" where
  "response_status out =
     (case out of Returned r \<Rightarrow> map_of (model_info r) ''status'' | _ \<Rightarrow> None)"

definition response_text :: "chat_response outcome \<Rightarrow> string option" where
  "response_text out = (case out of Returned r \<Rightarrow> Some (response r) | _ \<Rightarrow> None)"

definition propagates :: "'a outcome \<Rightarrow> bool" where
  "propagates out = (case out of Uncaught e \<Rightarrow> True | _ \<Rightarrow> False)"

section \<open>Concrete configurations, runtimes and requests\<close>

definition default_manager :: config_manager where
  "default_manager = \<lparr>config_path = ''config/config.yaml'', cm_config = 0\<rparr>"

definition default_heap :: heap where
  "default_heap = [VDict get_default_config]"

text \<open>The heap after an empty configuration file was loaded: \<^verbatim>\<open>_config\<close> is None.\<close>

definition empty_file_heap :: heap where
  "empty_file_heap = [VNone]"

text \<open>A configuration file without the \<^verbatim>\<open>training\<close>, \<^verbatim>\<open>data\<close> and \<^verbatim>\<open>privacy\<close> sections.\<close>

definition five_section_config :: dict where
  "five_section_config =
     AList.delete ''training'' (AList.delete ''data'' (AList.delete ''privacy''
       get_default_config))"

text \<open>A configuration with port 0 whose \<^verbatim>\<open>model\<close> section has no temperature.\<close>

definition port_zero_config :: dict where
  "port_zero_config =
     [(''model'', VDict [(''name'', VStr ''microsoft/DialoGPT-small'')]),
      (''inference'', VDict [(''max_new_tokens'', VInt 128)]),
      (''paths'', VDict [(''data_dir'', VStr ''./data'')]),
      (''api'', VDict [(''host'', VStr ''0.0.0.0''), (''port'', VInt 0)]),
      (''logging'', VDict [(''level'', VStr ''INFO'')])]"

definition with_values :: "cval \<Rightarrow> cval \<Rightarrow> dict" where
  "with_values t p =
     [(''model'', VDict [(''temperature'', t)]),
      (''inference'', VDict []),
      (''paths'', VDict []),
      (''api'', VDict [(''port'', p)]),
      (''logging'', VDict [])]"

fun sample_exc_str :: "exn \<Rightarrow> string" where
  "sample_exc_str (KeyError k) = [CHR 0x27] @ k @ [CHR 0x27]"
| "sample_exc_str TypeError = ''unsupported operand''"
| "sample_exc_str AttributeError = ''no such attribute''"
| "sample_exc_str IndexError = ''list index out of range''"
| "sample_exc_str (LibraryError m) = m"

text \<open>A machine without the model files: both loaders raise.\<close>

definition offline_runtime :: runtime where
  "offline_runtime =
     \<lparr>cuda_is_available = False, mps_is_available = False, cuda_empty_cache = None,
      tokenizer_from_pretrained = (\<lambda>name. Inl (LibraryError ''model files not found'')),
      model_from_pretrained = (\<lambda>name dev. Inl (LibraryError ''model files not found'')),
      exc_str = sample_exc_str\<rparr>"

text \<open>
  A model that loads and ends every generation at once: the output sequence is the
  prompt, so the decoded continuation is empty.
\<close>

definition silent_tokenizer :: tokenizer where
  "silent_tokenizer =
     \<lparr>tok_encode = (\<lambda>text max_length. Inr (map of_char text)),
      tok_decode = (\<lambda>ids. Inr (map char_of ids)),
      tok_eos_token_id = VInt 50256\<rparr>"

definition silent_lm :: causal_lm where
  "silent_lm = \<lparr>lm_generate = (\<lambda>inputs kwargs rnd. Inr inputs), lm_parameters = Inr 124439808\<rparr>"

definition silent_runtime :: runtime where
  "silent_runtime =
     \<lparr>cuda_is_available = False, mps_is_available = False, cuda_empty_cache = None,
      tokenizer_from_pretrained = (\<lambda>name. Inr silent_tokenizer),
      model_from_pretrained = (\<lambda>name dev. Inr silent_lm),
      exc_str = sample_exc_str\<rparr>"

text \<open>
  A model that reports what it was called with: it continues the prompt with
  \<^verbatim>\<open>configured\<close> when the temperature and token limit it receives are those of the
  default configuration, and with \<^verbatim>\<open>other\<close> when they are not.
\<close>

definition probe_lm :: causal_lm where
  "probe_lm =
     \<lparr>lm_generate = (\<lambda>inputs kwargs rnd.
        Inr (inputs @ map of_char
          (if kw_temperature kwargs = VFloat (Finite (7 / 10)) \<and>
              kw_max_new_tokens kwargs = VInt 128
           then ''configured'' else ''other''))),
      lm_parameters = Inr 124439808\<rparr>"

definition probe_runtime :: runtime where
  "probe_runtime =
     \<lparr>cuda_is_available = False, mps_is_available = False, cuda_empty_cache = None,
      tokenizer_from_pretrained = (\<lambda>name. Inr silent_tokenizer),
      model_from_pretrained = (\<lambda>name dev. Inr probe_lm),
      exc_str = sample_exc_str\<rparr>"

text \<open>A model that loads, and then fails in every call; the GPU cache call fails too.\<close>

definition broken_lm :: causal_lm where
  "broken_lm =
     \<lparr>lm_generate = (\<lambda>inputs kwargs rnd. Inl (LibraryError ''CUDA out of memory'')),
      lm_parameters = Inl (LibraryError ''CUDA error'')\<rparr>"

definition broken_runtime :: runtime where
  "broken_runtime =
     \<lparr>cuda_is_available = True, mps_is_available = False,
      cuda_empty_cache = Some (LibraryError ''CUDA error''),
      tokenizer_from_pretrained = (\<lambda>name. Inr silent_tokenizer),
      model_from_pretrained = (\<lambda>name dev. Inr broken_lm),
      exc_str = sample_exc_str\<rparr>"

text \<open>The engine as \<^verbatim>\<open>__init__\<close> has it just before \<^verbatim>\<open>_load_model\<close>, on a given device.\<close>

definition unloaded_engine :: "cval \<Rightarrow> ai_engine" where
  "unloaded_engine dev =
     \<lparr>config_manager = default_manager, config = 0, tokenizer = None, model = None,
      device = dev, fallback_responses = None\<rparr>"

definition offline_engine :: ai_engine where
  "offline_engine = load_model offline_runtime default_heap (unloaded_engine (VStr ''cpu''))"

definition silent_engine :: ai_engine where
  "silent_engine = load_model silent_runtime default_heap (unloaded_engine (VStr ''cpu''))"

definition probe_engine :: ai_engine where
  "probe_engine = load_model probe_runtime default_heap (unloaded_engine (VStr ''cpu''))"

definition broken_engine :: ai_engine where
  "broken_engine = load_model broken_runtime default_heap (unloaded_engine (VStr ''cuda''))"

definition hello_request :: chat_request where
  "hello_request =
     \<lparr>message = ''hello'', conversation_history = Some [], temperature = None,
      max_tokens = None\<rparr>"

definition blank_request :: chat_request where
  "blank_request =
     \<lparr>message = ''   '', conversation_history = Some [], temperature = None,
      max_tokens = None\<rparr>"

definition hot_request :: chat_request where
  "hot_request =
     \<lparr>message = ''hello'', conversation_history = Some [], temperature = Some 2,
      max_tokens = Some 5\<rparr>"

section \<open>Facts about the Python values and the loops\<close>

lemmas engine_defs = offline_engine_def silent_engine_def broken_engine_def probe_engine_def
  unloaded_engine_def load_model_def load_model_try_def setup_fallback_system_def
  offline_runtime_def silent_runtime_def broken_runtime_def probe_runtime_def
  default_heap_def default_manager_def get_default_config_def exn_bind_def
  silent_tokenizer_def silent_lm_def broken_lm_def probe_lm_def

lemma split_dot_nonempty: "split_dot s \<noteq> []"
  by (induction s) (auto split: list.splits)

lemma map_of_update_same: "map_of (AList.update k v al) k = Some v"
  by (simp add: update_conv')

lemma empty_dict_prefix:
  "0 < n \<Longrightarrow> ks \<noteq> [] \<Longrightarrow> addresses_missing_or_dict (VDict []) (take n ks)"
  by (cases ks; cases n) (simp_all add: addresses_missing_or_dict_def)

lemma loop_round_trip:
  "ks \<noteq> [] \<Longrightarrow>
   (\<forall>n. 0 < n \<and> n < length ks \<longrightarrow> addresses_missing_or_dict (VDict cfg) (take n ks)) \<Longrightarrow>
   \<exists>cfg'. set_value_loop (VDict cfg) ks v = Inr (VDict cfg') \<and>
          get_value_loop (VDict cfg') ks = Inr v \<and>
          (\<forall>n. 0 < n \<and> n < length ks \<longrightarrow>
             (\<exists>sub. get_value_loop (VDict cfg') (take n ks) = Inr (VDict sub)))"
proof (induction ks arbitrary: cfg)
  case Nil
  then show ?case by simp
next
  case (Cons k ks)
  show ?case
  proof (cases ks)
    case Nil
    then show ?thesis by (simp add: map_of_update_same)
  next
    case (Cons k2 ks2)
    have first: "addresses_missing_or_dict (VDict cfg) [k]"
      using Cons.prems(2)[rule_format, of 1] Cons by simp
    define sub where "sub = (case map_of cfg k of Some (VDict s) \<Rightarrow> s | _ \<Rightarrow> [])"
    have sub_eq: "(case map_of cfg k of None \<Rightarrow> VDict [] | Some c \<Rightarrow> c) = VDict sub"
      using first
      by (auto simp: addresses_missing_or_dict_def sub_def split: option.splits cval.splits)
    have pre: "\<forall>n. 0 < n \<and> n < length ks \<longrightarrow> addresses_missing_or_dict (VDict sub) (take n ks)"
    proof (intro allI impI)
      fix n assume n: "0 < n \<and> n < length ks"
      show "addresses_missing_or_dict (VDict sub) (take n ks)"
      proof (cases "map_of cfg k")
        case None
        then have "sub = []" by (simp add: sub_def)
        then show ?thesis using n Cons empty_dict_prefix by simp
      next
        case (Some c)
        then have c: "c = VDict sub" using sub_eq by simp
        have "addresses_missing_or_dict (VDict cfg) (take (Suc n) (k # ks))"
          using Cons.prems(2)[rule_format, of "Suc n"] n by simp
        then show ?thesis using Some c by (simp add: addresses_missing_or_dict_def)
      qed
    qed
    from Cons.IH[OF _ pre] Cons
    obtain sub' where s: "set_value_loop (VDict sub) ks v = Inr (VDict sub')"
        and g: "get_value_loop (VDict sub') ks = Inr v"
        and m: "\<forall>n. 0 < n \<and> n < length ks \<longrightarrow>
                  (\<exists>d. get_value_loop (VDict sub') (take n ks) = Inr (VDict d))"
      by auto
    have set_eq: "set_value_loop (VDict cfg) (k # ks) v =
                    Inr (VDict (AList.update k (VDict sub') cfg))"
      using Cons sub_eq s by simp
    have get_eq: "get_value_loop (VDict (AList.update k (VDict sub') cfg)) (k # ks) = Inr v"
      using g by (simp add: map_of_update_same)
    have mid: "\<forall>n. 0 < n \<and> n < length (k # ks) \<longrightarrow>
       (\<exists>d. get_value_loop (VDict (AList.update k (VDict sub') cfg)) (take n (k # ks)) = Inr (VDict d))"
    proof (intro allI impI)
      fix n assume n: "0 < n \<and> n < length (k # ks)"
      then obtain j where j: "n = Suc j" by (cases n) auto
      show "\<exists>d. get_value_loop (VDict (AList.update k (VDict sub') cfg)) (take n (k # ks)) = Inr (VDict d)"
      proof (cases j)
        case 0
        then show ?thesis using j by (simp add: map_of_update_same)
      next
        case (Suc i)
        then have "0 < j \<and> j < length ks" using n j by simp
        then show ?thesis using m j by (simp add: map_of_update_same)
      qed
    qed
    show ?thesis using set_eq get_eq mid by blast
  qed
qed

lemma missing_section_dict:
  "missing_section (VDict cfg) ss = Inr (\<exists>s\<in>set ss. map_of cfg s = None)"
  by (induction ss) (auto split: bool.splits)

lemma lt_or_gt_number:
  "as_float x = Some f \<Longrightarrow> lt_or_gt x lo hi = Inr (float_lt f lo \<or> float_gt f hi)"
  by (cases "float_lt f lo") (simp_all add: lt_or_gt_def py_lt_def py_gt_def)

lemma outside_range_lt_or_gt:
  "outside_range x lo hi \<Longrightarrow> lt_or_gt x lo hi = Inr True"
  by (auto simp: outside_range_def lt_or_gt_number split: option.splits)

lemma within_range_lt_or_gt:
  "within_range x lo hi \<Longrightarrow> lt_or_gt x lo hi = Inr False"
  by (auto simp: within_range_def lt_or_gt_number split: option.splits pyfloat.splits)

lemma is_number_lt_or_gt:
  "is_number x \<Longrightarrow> \<exists>b. lt_or_gt x lo hi = Inr b"
  by (auto simp: is_number_def lt_or_gt_number)

lemma config_item_with_values:
  "config_item (VDict (with_values t p)) ''model'' ''temperature'' = Inr t"
  "config_item (VDict (with_values t p)) ''api'' ''port'' = Inr p"
  by (simp_all add: config_item_def with_values_def exn_bind_def)

lemma required_with_values:
  "\<forall>s\<in>set required_sections. map_of (with_values t p) s \<noteq> None"
  by (simp add: required_sections_def with_values_def)

lemma strip_empty_iff: "strip s = [] \<longleftrightarrow> (\<forall>c\<in>set s. isspace c)"
proof
  assume e: "strip s = []"
  show "\<forall>c\<in>set s. isspace c"
  proof (rule ccontr)
    assume "\<not> (\<forall>c\<in>set s. isspace c)"
    then have ne: "dropWhile isspace s \<noteq> []" by simp
    then have "\<not> isspace (hd (dropWhile isspace s))" by (rule hd_dropWhile)
    moreover have "hd (dropWhile isspace s) \<in> set (dropWhile isspace s)" using ne by simp
    moreover from e have "\<forall>x\<in>set (dropWhile isspace s). isspace x"
      by (simp add: strip_def)
    ultimately show False by blast
  qed
next
  assume "\<forall>c\<in>set s. isspace c"
  then show "strip s = []" by (auto simp: strip_def dest: set_dropWhileD)
qed

lemma str_in_subset: "str_in w s \<Longrightarrow> set w \<subseteq> set s"
proof (induction s)
  case Nil
  then show ?case by simp
next
  case (Cons c cs)
  from Cons.prems have "take (length w) (c # cs) = w \<or> str_in w cs" by simp
  then show ?case
  proof
    assume "take (length w) (c # cs) = w"
    then have "set w = set (take (length w) (c # cs))" by simp
    then show ?thesis using set_take_subset by fastforce
  next
    assume "str_in w cs"
    then show ?thesis using Cons.IH by auto
  qed
qed

lemma isspace_lower_char: "isspace c \<Longrightarrow> lower_char c = c"
  by (auto simp: isspace_def lower_char_def Let_def)

lemma h_not_space: "\<not> isspace CHR ''h''"
  by (simp add: isspace_def)

lemma greeting_word_not_blank:
  assumes "str_in w (lower s)" and "CHR ''h'' \<in> set w"
  shows "strip s \<noteq> []"
proof
  assume "strip s = []"
  then have sp: "\<forall>c\<in>set s. isspace c" by (simp add: strip_empty_iff)
  then have "lower s = s" by (simp add: lower_def isspace_lower_char map_idI)
  with assms have "CHR ''h'' \<in> set s" using str_in_subset by fastforce
  with sp show False using h_not_space by blast
qed

lemma load_failure_model_None:
  "load_model_try rt h self = Inl e \<Longrightarrow> model (load_model rt h self) = None"
  by (simp add: load_model_def setup_fallback_system_def)

lemma offline_load_fails:
  "load_model_try offline_runtime default_heap (unloaded_engine (VStr ''cpu'')) =
     Inl (LibraryError ''model files not found'')"
  by (simp add: engine_defs)

lemma offline_model_None: "model offline_engine = None"
  by (simp add: engine_defs)

lemma fallback_response_canned:
  assumes "fallback_responses self = Some FALLBACK_RESPONSES"
  shows "\<exists>reply. fallback_response self user_input rnd = Inr reply \<and> reply \<in> set canned_responses"
proof -
  have len: "length FALLBACK_RESPONSES = 4" by (simp add: FALLBACK_RESPONSES_def)
  then have ne: "FALLBACK_RESPONSES \<noteq> []" by auto
  have "rnd mod length FALLBACK_RESPONSES < length FALLBACK_RESPONSES" using len by simp
  then have "FALLBACK_RESPONSES ! (rnd mod length FALLBACK_RESPONSES) \<in> set FALLBACK_RESPONSES"
    by (rule nth_mem)
  then show ?thesis using assms ne
    by (simp add: fallback_response_def Let_def random_choice_def canned_responses_def)
qed

lemma except_500_not_propagates: "\<not> propagates (except_500 rt r)"
  by (simp add: propagates_def except_500_def split: sum.splits)

lemma except_500_raise: "r = Inl e \<Longrightarrow> except_500 rt r = HTTPException 500 (exc_str rt e)"
  by (simp add: except_500_def)

lemma health_check_propagates:
  "health_check default_heap broken_engine 0 = Uncaught (LibraryError ''CUDA error'')"
  by (simp add: health_check_def get_model_info_def engine_defs)

lemma load_model_config_manager:
  "config_manager (load_model rt h self) = config_manager self"
  by (auto simp: load_model_def load_model_try_def setup_fallback_system_def exn_bind_def
      split: sum.splits)

lemma getitem_Inr_dict: "getitem c k = Inr v \<Longrightarrow> \<exists>d. c = VDict d"
  by (cases c) simp_all

lemma probe_engine_parts:
  "tokenizer probe_engine = Some silent_tokenizer"
  "model probe_engine = Some probe_lm"
  "config probe_engine = 0"
  by (simp_all add: engine_defs)

section \<open>Configuration validation\<close>

text \<open>
  When the configuration is a dictionary, \<^verbatim>\<open>validate_config\<close> does what claim C1 says
  wherever both values are there to be compared: False for a temperature that is a
  number outside 0 to 2, False for a port that is a number outside 1 to 65535 when the
  temperature is a number, True when the required sections are present and both values
  lie within their ranges, bounds included.
\<close>

lemma validate_config_on_numbers:
  assumes "h ! cm_config self = VDict cfg"
  shows
  "(config_item (VDict cfg) ''model'' ''temperature'' = Inr t \<and>
      outside_range t 0 2
      \<longrightarrow> validate_config h self = Inr False) \<and>
   (config_item (VDict cfg) ''model'' ''temperature'' = Inr t \<and> is_number t \<and>
      config_item (VDict cfg) ''api'' ''port'' = Inr p \<and>
      outside_range p 1 65535
      \<longrightarrow> validate_config h self = Inr False) \<and>
   ((\<forall>s\<in>set required_sections. map_of cfg s \<noteq> None) \<and>
      config_item (VDict cfg) ''model'' ''temperature'' = Inr t \<and>
      within_range t 0 2 \<and>
      config_item (VDict cfg) ''api'' ''port'' = Inr p \<and>
      within_range p 1 65535
      \<longrightarrow> validate_config h self = Inr True)"
proof (intro conjI impI)
  assume "config_item (VDict cfg) ''model'' ''temperature'' = Inr t \<and>
      outside_range t 0 2"
  then show "validate_config h self = Inr False"
    using assms
    by (simp add: validate_config_def Let_def exn_bind_def outside_range_lt_or_gt
        missing_section_dict split: bool.splits)
next
  assume a: "config_item (VDict cfg) ''model'' ''temperature'' = Inr t \<and> is_number t \<and>
      config_item (VDict cfg) ''api'' ''port'' = Inr p \<and>
      outside_range p 1 65535"
  then obtain b where "lt_or_gt t 0 2 = Inr b" using is_number_lt_or_gt by blast
  with a assms show "validate_config h self = Inr False"
    by (cases b) (simp_all add: validate_config_def Let_def exn_bind_def outside_range_lt_or_gt
        missing_section_dict split: bool.splits)
next
  assume "(\<forall>s\<in>set required_sections. map_of cfg s \<noteq> None) \<and>
      config_item (VDict cfg) ''model'' ''temperature'' = Inr t \<and>
      within_range t 0 2 \<and>
      config_item (VDict cfg) ''api'' ''port'' = Inr p \<and>
      within_range p 1 65535"
  then show "validate_config h self = Inr True"
    using assms
    by (simp add: validate_config_def Let_def exn_bind_def within_range_lt_or_gt
        missing_section_dict split: bool.splits)
qed

lemma validate_config_boundaries:
  "validate_config [VDict (with_values (VInt 0) (VInt 1))] default_manager = Inr True \<and>
   validate_config [VDict (with_values (VInt 2) (VInt 65535))] default_manager = Inr True \<and>
   validate_config [VDict (with_values (VInt 3) (VInt 8000))] default_manager = Inr False \<and>
   validate_config [VDict (with_values (VInt 1) (VInt 65536))] default_manager = Inr False"
  by (simp add: validate_config_def with_values_def default_manager_def required_sections_def
      config_item_def exn_bind_def lt_or_gt_def py_lt_def py_gt_def)

text \<open>
  Claim C1: \<^verbatim>\<open>validate_config\<close> returns False whenever \<^verbatim>\<open>api.port\<close> is outside the
  range 1 to 65535. The code breaks it: with port 0 and a \<^verbatim>\<open>model\<close> section that has no
  temperature, the unguarded lookup of the temperature raises KeyError before the port is
  looked at, and the method returns nothing.
\<close>

theorem validate_config_raises_without_temperature:
  "config_item (VDict port_zero_config) ''api'' ''port'' = Inr (VInt 0) \<and>
   outside_range (VInt 0) 1 65535 \<and>
   validate_config [VDict port_zero_config] default_manager = Inl (KeyError ''temperature'')"
  by (simp add: validate_config_def port_zero_config_def default_manager_def
      required_sections_def config_item_def exn_bind_def outside_range_def)

text \<open>
  Claim C2, as the code has it. When the loaded configuration is a dictionary,
  \<^verbatim>\<open>validate_config\<close> returns False whenever one of the sections \<^verbatim>\<open>model\<close>,
  \<^verbatim>\<open>inference\<close>, \<^verbatim>\<open>paths\<close>, \<^verbatim>\<open>api\<close>, \<^verbatim>\<open>logging\<close> is missing from its top level.
\<close>

theorem validate_config_required_sections:
  "h ! cm_config self = VDict cfg \<Longrightarrow> s \<in> set required_sections \<Longrightarrow>
   map_of cfg s = None \<Longrightarrow> validate_config h self = Inr False"
  by (auto simp: validate_config_def Let_def missing_section_dict split: bool.splits)

theorem validate_config_required_sections_witness:
  "validate_config [VDict (AList.delete ''api'' get_default_config)] default_manager = Inr False \<and>
   validate_config [VDict (AList.delete ''logging'' get_default_config)] default_manager =
     Inr False"
proof -
  have a: "validate_config [VDict (AList.delete ''api'' get_default_config)] default_manager =
             Inr False"
    using validate_config_required_sections
      [of "[VDict (AList.delete ''api'' get_default_config)]" default_manager
          "AList.delete ''api'' get_default_config" "''api''"]
    by (simp add: required_sections_def default_manager_def delete_conv')
  have b: "validate_config [VDict (AList.delete ''logging'' get_default_config)] default_manager =
             Inr False"
    using validate_config_required_sections
      [of "[VDict (AList.delete ''logging'' get_default_config)]" default_manager
          "AList.delete ''logging'' get_default_config" "''logging''"]
    by (simp add: required_sections_def default_manager_def delete_conv')
  show ?thesis using a b by simp
qed

text \<open>
  The sections \<^verbatim>\<open>training\<close>, \<^verbatim>\<open>data\<close> and \<^verbatim>\<open>privacy\<close> of the configuration file are
  not required: a configuration without them validates.
\<close>

theorem validate_config_required_sections_counterexample:
  "map_of five_section_config ''training'' = None \<and>
   map_of five_section_config ''data'' = None \<and>
   map_of five_section_config ''privacy'' = None \<and>
   validate_config [VDict five_section_config] default_manager = Inr True"
  by (simp add: validate_config_def five_section_config_def get_default_config_def
      default_manager_def required_sections_def config_item_def exn_bind_def
      lt_or_gt_def py_lt_def py_gt_def)

text \<open>
  After an empty configuration file the configuration is None, and the first membership
  test raises TypeError.
\<close>

lemma validate_config_empty_file:
  "validate_config empty_file_heap default_manager = Inl TypeError"
  by (simp add: validate_config_def empty_file_heap_def default_manager_def
      required_sections_def)

section \<open>Dotted-path access\<close>

text \<open>
  Claim C8, as the code has it. Let the configuration be a dictionary, and let every
  proper prefix of the key path address a missing key or a nested dictionary. Then
  \<^verbatim>\<open>set_value(p, v)\<close> returns, \<^verbatim>\<open>get_value(p, d)\<close> afterwards returns \<open>v\<close> whatever the
  default \<open>d\<close> is, and every proper prefix of the path then addresses a dictionary: the
  missing ones have been created.
\<close>

theorem set_value_get_value_round_trip:
  assumes "cm_config self < length h"
    and "h ! cm_config self = VDict cfg"
    and "\<forall>n. 0 < n \<and> n < length (split_dot p) \<longrightarrow>
           addresses_missing_or_dict (h ! cm_config self) (take n (split_dot p))"
  shows "\<exists>h'. set_value h self p v = Inr h' \<and>
               get_value h' self p d = Inr v \<and>
               (\<forall>n. 0 < n \<and> n < length (split_dot p) \<longrightarrow>
                  (\<exists>sub. get_value_loop (h' ! cm_config self) (take n (split_dot p))
                            = Inr (VDict sub)))"
proof -
  from loop_round_trip[OF split_dot_nonempty, of p cfg v] assms(2,3)
  obtain cfg' where s: "set_value_loop (VDict cfg) (split_dot p) v = Inr (VDict cfg')"
    and g: "get_value_loop (VDict cfg') (split_dot p) = Inr v"
    and m: "\<forall>n. 0 < n \<and> n < length (split_dot p) \<longrightarrow>
             (\<exists>sub. get_value_loop (VDict cfg') (take n (split_dot p)) = Inr (VDict sub))"
    by auto
  have "set_value h self p v = Inr (h[cm_config self := VDict cfg'])"
    using s assms(2) by (simp add: set_value_def)
  moreover have "(h[cm_config self := VDict cfg']) ! cm_config self = VDict cfg'"
    using assms(1) by simp
  ultimately show ?thesis using g m by (simp add: get_value_def)
qed

theorem set_value_get_value_round_trip_witness:
  "set_value default_heap default_manager ''cache.ttl.seconds'' (VInt 60) =
     Inr [VDict (get_default_config @
            [(''cache'', VDict [(''ttl'', VDict [(''seconds'', VInt 60)])])])] \<and>
   (\<exists>h'. set_value default_heap default_manager ''cache.ttl.seconds'' (VInt 60) = Inr h' \<and>
          get_value h' default_manager ''cache.ttl.seconds'' VNone = Inr (VInt 60) \<and>
          get_value h' default_manager ''cache.ttl'' VNone =
            Inr (VDict [(''seconds'', VInt 60)])) \<and>
   (\<exists>h'. set_value default_heap default_manager ''model.temperature'' (VInt 1) = Inr h' \<and>
          get_value h' default_manager ''model.temperature'' (VStr ''none'') = Inr (VInt 1))"
proof -
  have len: "cm_config default_manager < length default_heap"
    by (simp add: default_manager_def default_heap_def)
  have root: "default_heap ! cm_config default_manager = VDict get_default_config"
    by (simp add: default_manager_def default_heap_def)
  have sp1: "split_dot ''cache.ttl.seconds'' = [''cache'', ''ttl'', ''seconds'']"
    by simp
  have sp2: "split_dot ''model.temperature'' = [''model'', ''temperature'']"
    by simp
  have sp3: "split_dot ''cache.ttl'' = [''cache'', ''ttl'']"
    by simp
  have pre1: "\<forall>n. 0 < n \<and> n < length (split_dot ''cache.ttl.seconds'') \<longrightarrow>
      addresses_missing_or_dict (default_heap ! cm_config default_manager)
        (take n (split_dot ''cache.ttl.seconds''))"
  proof (intro allI impI)
    fix n assume "0 < n \<and> n < length (split_dot ''cache.ttl.seconds'')"
    then have "n = 1 \<or> n = 2" using sp1 by auto
    then show "addresses_missing_or_dict (default_heap ! cm_config default_manager)
        (take n (split_dot ''cache.ttl.seconds''))"
      using sp1
      by (auto simp: addresses_missing_or_dict_def default_heap_def default_manager_def
          get_default_config_def)
  qed
  have pre2: "\<forall>n. 0 < n \<and> n < length (split_dot ''model.temperature'') \<longrightarrow>
      addresses_missing_or_dict (default_heap ! cm_config default_manager)
        (take n (split_dot ''model.temperature''))"
  proof (intro allI impI)
    fix n assume "0 < n \<and> n < length (split_dot ''model.temperature'')"
    then have "n = 1" using sp2 by auto
    then show "addresses_missing_or_dict (default_heap ! cm_config default_manager)
        (take n (split_dot ''model.temperature''))"
      using sp2
      by (auto simp: addresses_missing_or_dict_def default_heap_def default_manager_def
          get_default_config_def)
  qed
  have val: "set_value default_heap default_manager ''cache.ttl.seconds'' (VInt 60) =
     Inr [VDict (get_default_config @
            [(''cache'', VDict [(''ttl'', VDict [(''seconds'', VInt 60)])])])]"
    unfolding set_value_def sp1
    by (simp add: default_heap_def default_manager_def get_default_config_def)
  have mid: "get_value [VDict (get_default_config @
            [(''cache'', VDict [(''ttl'', VDict [(''seconds'', VInt 60)])])])]
            default_manager ''cache.ttl'' VNone = Inr (VDict [(''seconds'', VInt 60)])"
    unfolding get_value_def sp3
    by (simp add: default_manager_def get_default_config_def)
  show ?thesis
    using set_value_get_value_round_trip[OF len root pre1, of "VInt 60" VNone]
      set_value_get_value_round_trip[OF len root pre2, of "VInt 1" "VStr ''none''"]
      val mid
    by auto
qed

text \<open>
  Not for every configuration state: after an empty configuration file the configuration
  is None, the one-component path \<^verbatim>\<open>a\<close> has no proper prefix, and \<^verbatim>\<open>set_value\<close> raises
  TypeError at the item assignment; \<^verbatim>\<open>get_value\<close> still returns the default.
\<close>

theorem set_value_get_value_round_trip_counterexample:
  "split_dot ''a'' = [''a''] \<and>
   set_value empty_file_heap default_manager ''a'' (VInt 1) = Inl TypeError \<and>
   get_value empty_file_heap default_manager ''a'' VNone = Inr VNone"
  by (simp add: set_value_def get_value_def empty_file_heap_def default_manager_def)

section \<open>The engine\<close>

text \<open>
  Claim C3. For an input that is empty or consists of whitespace only,
  \<^verbatim>\<open>generate_response\<close> returns the clarification message, whatever the engine holds
  (model loaded or not) and whatever the conversation history is.
\<close>

theorem blank_input_clarification:
  "\<forall>c\<in>set user_input. isspace c \<Longrightarrow>
   generate_response h self user_input history rnd =
     ''I didn't catch that. Could you please repeat?''"
  by (simp add: generate_response_def strip_empty_iff CLARIFICATION_def)

theorem blank_input_clarification_witness:
  "generate_response default_heap offline_engine [] None 7 = CLARIFICATION \<and>
   generate_response default_heap silent_engine ''   '' (Some [''user: hi'']) 0 = CLARIFICATION"
proof -
  have a: "\<forall>c\<in>set []. isspace c" by simp
  have b: "\<forall>c\<in>set ''   ''. isspace c" by (simp add: isspace_def)
  show ?thesis
    using blank_input_clarification[OF a, of default_heap offline_engine None 7]
      blank_input_clarification[OF b, of default_heap silent_engine "Some [''user: hi'']" 0]
    by (simp add: CLARIFICATION_def)
qed

text \<open>
  Claim C4. When the engine's model is None, \<^verbatim>\<open>get_model_info\<close>, and with it the
  handler of GET /model/info, returns the dictionary with status \<^verbatim>\<open>fallback\<close> and
  model name \<^verbatim>\<open>none\<close>; and a failed model load leaves the model None.
\<close>

theorem model_info_fallback:
  "(model self = None \<longrightarrow>
      get_model_info h self = Inr [(''status'', VStr ''fallback''), (''model_name'', VStr ''none'')] \<and>
      get_model_info_endpoint rt h self =
        Returned [(''status'', VStr ''fallback''), (''model_name'', VStr ''none'')]) \<and>
   (load_model_try rt h self = Inl e \<longrightarrow> model (load_model rt h self) = None)"
  by (simp add: get_model_info_def get_model_info_endpoint_def except_500_def
      load_failure_model_None)

theorem model_info_fallback_witness:
  "get_model_info_endpoint offline_runtime default_heap offline_engine =
     Returned [(''status'', VStr ''fallback''), (''model_name'', VStr ''none'')]"
proof -
  have "model offline_engine = None"
    using model_info_fallback[of "unloaded_engine (VStr ''cpu'')" default_heap offline_runtime
        "LibraryError ''model files not found''"] offline_load_fails
    by (simp add: offline_engine_def)
  then show ?thesis
    using model_info_fallback[of offline_engine default_heap offline_runtime] by simp
qed

text \<open>
  Claim C6, as the code has it. When the model is None, every input whose lower-cased
  text contains \<^verbatim>\<open>hello\<close>, \<^verbatim>\<open>hi\<close> or \<^verbatim>\<open>hey\<close> is answered by the fixed greeting.
\<close>

theorem greeting_in_fallback_mode:
  assumes "model self = None"
    and "str_in ''hello'' (lower user_input) \<or> str_in ''hi'' (lower user_input) \<or>
         str_in ''hey'' (lower user_input)"
  shows "generate_response h self user_input history rnd = GREETING"
proof -
  have "strip user_input \<noteq> []"
    using assms(2) greeting_word_not_blank[of _ user_input] by fastforce
  moreover have "fallback_response self user_input rnd = Inr GREETING"
    using assms(2) by (auto simp: fallback_response_def Let_def)
  ultimately show ?thesis using assms(1) by (simp add: generate_response_def)
qed

theorem greeting_in_fallback_mode_witness:
  "generate_response default_heap offline_engine ''Hi there'' None 0 = GREETING \<and>
   generate_response default_heap offline_engine ''HELLO'' (Some [''user: x'']) 3 = GREETING \<and>
   generate_response default_heap offline_engine ''hey, you'' None 1 = GREETING"
proof -
  have a: "str_in ''hello'' (lower ''Hi there'') \<or> str_in ''hi'' (lower ''Hi there'') \<or>
           str_in ''hey'' (lower ''Hi there'')"
    by code_simp
  have b: "str_in ''hello'' (lower ''HELLO'') \<or> str_in ''hi'' (lower ''HELLO'') \<or>
           str_in ''hey'' (lower ''HELLO'')"
    by code_simp
  have c: "str_in ''hello'' (lower ''hey, you'') \<or> str_in ''hi'' (lower ''hey, you'') \<or>
           str_in ''hey'' (lower ''hey, you'')"
    by code_simp
  show ?thesis
    using greeting_in_fallback_mode[OF offline_model_None a]
      greeting_in_fallback_mode[OF offline_model_None b]
      greeting_in_fallback_mode[OF offline_model_None c]
    by simp
qed

text \<open>
  With a model loaded the keywords play no part: the input goes to the model, and a model
  that generates nothing is answered for by the stock sentence of
  \<^verbatim>\<open>_generate_model_response\<close>.
\<close>

theorem greeting_in_fallback_mode_counterexample:
  "str_in ''hello'' (lower ''hello'') \<and>
   generate_response default_heap silent_engine ''hello'' None 0 = NOT_SURE \<and>
   NOT_SURE \<noteq> GREETING"
  by (simp add: generate_response_def generate_model_response_def generation_kwargs_def
      config_item_def strip_def isspace_def lower_def lower_char_def engine_defs
      NOT_SURE_def GREETING_def)

section \<open>The API handlers\<close>

text \<open>
  Claim C5, as the code has it. After a failed model load every chat input that is not
  blank is answered, with a normal response, by the keyword-matched fallback system (a
  blank input by the clarification message); the text is one of the canned answers, and
  the \<^verbatim>\<open>model_info\<close> field of the same response has status \<^verbatim>\<open>fallback\<close> and model
  name \<^verbatim>\<open>none\<close>.
\<close>

theorem chat_after_failed_load:
  assumes "load_model_try rt h self = Inl e"
  shows "\<exists>reply.
           chat rt h (load_model rt h self) request rnd now =
             Returned \<lparr>response = reply, timestamp = now,
                       model_info = [(''status'', VStr ''fallback''),
                                     (''model_name'', VStr ''none'')]\<rparr> \<and>
           (strip (message request) \<noteq> [] \<longrightarrow>
              fallback_response (load_model rt h self) (message request) rnd = Inr reply \<and>
              reply \<in> set canned_responses) \<and>
           (strip (message request) = [] \<longrightarrow> reply = CLARIFICATION)"
proof -
  let ?eng = "load_model rt h self"
  have eng: "?eng = setup_fallback_system self" using assms by (simp add: load_model_def)
  have m: "model ?eng = None" and f: "fallback_responses ?eng = Some FALLBACK_RESPONSES"
    by (simp_all add: eng setup_fallback_system_def)
  obtain reply where t: "fallback_response ?eng (message request) rnd = Inr reply"
      and c: "reply \<in> set canned_responses"
    using fallback_response_canned[OF f] by blast
  show ?thesis
  proof (cases "strip (message request) = []")
    case True
    then show ?thesis using m
      by (simp add: chat_def chat_try_def except_500_def get_model_info_def exn_bind_def
          generate_response_def)
  next
    case False
    then show ?thesis using m t c
      by (simp add: chat_def chat_try_def except_500_def get_model_info_def exn_bind_def
          generate_response_def)
  qed
qed

theorem chat_after_failed_load_witness:
  "\<exists>reply. chat offline_runtime default_heap offline_engine hello_request 2 1700000000 =
            Returned \<lparr>response = reply, timestamp = 1700000000,
                      model_info = [(''status'', VStr ''fallback''),
                                    (''model_name'', VStr ''none'')]\<rparr> \<and>
          reply \<in> set canned_responses"
proof -
  have "strip (message hello_request) \<noteq> []"
    by (simp add: hello_request_def strip_def isspace_def)
  then show ?thesis
    using chat_after_failed_load[OF offline_load_fails, of hello_request 2 1700000000]
    by (auto simp: offline_engine_def)
qed

text \<open>
  The POST /chat response does tell the two apart: its \<^verbatim>\<open>model_info\<close> has status
  \<^verbatim>\<open>fallback\<close> after a failed load and \<^verbatim>\<open>loaded\<close> with a model. And an input of
  spaces, which is not empty, gets the clarification message, which is none of the
  canned answers.
\<close>

theorem chat_after_failed_load_counterexample:
  "response_status (chat offline_runtime default_heap offline_engine hello_request 0 0) =
     Some (VStr ''fallback'') \<and>
   response_status (chat silent_runtime default_heap silent_engine hello_request 0 0) =
     Some (VStr ''loaded'') \<and>
   response_text (chat offline_runtime default_heap offline_engine blank_request 0 0) =
     Some CLARIFICATION \<and>
   CLARIFICATION \<notin> set canned_responses"
  by (simp add: response_status_def response_text_def chat_def chat_try_def except_500_def
      get_model_info_def generate_response_def hello_request_def blank_request_def
      strip_def isspace_def engine_defs canned_responses_def FALLBACK_RESPONSES_def
      CLARIFICATION_def GREETING_def DOING_WELL_def CAPABILITIES_def)

text \<open>
  Claim C7. None of the handlers of chat, model info, clear-cache and config lets an
  exception through: an exception raised in the handler's body becomes an HTTP 500
  response whose detail is the exception's string, and an exception raised while
  generating becomes the static apology.
\<close>

theorem handlers_catch_exceptions:
  "\<not> propagates (chat rt h eng request rnd now) \<and>
   \<not> propagates (get_model_info_endpoint rt h eng) \<and>
   \<not> propagates (clear_model_cache rt eng) \<and>
   \<not> propagates (fst (get_config_endpoint rt h eng)) \<and>
   (chat_try h eng request rnd now = Inl e \<longrightarrow>
      chat rt h eng request rnd now = HTTPException 500 (exc_str rt e)) \<and>
   (get_model_info h eng = Inl e \<longrightarrow>
      get_model_info_endpoint rt h eng = HTTPException 500 (exc_str rt e)) \<and>
   (clear_cache rt eng = Inl e \<longrightarrow>
      clear_model_cache rt eng = HTTPException 500 (exc_str rt e)) \<and>
   (fst (get_config_try h eng) = Inl e \<longrightarrow>
      fst (get_config_endpoint rt h eng) = HTTPException 500 (exc_str rt e)) \<and>
   (strip user_input \<noteq> [] \<and>
    (case model eng of
       None \<Rightarrow> fallback_response eng user_input rnd
     | Some m \<Rightarrow> generate_model_response h eng user_input history rnd) = Inl e \<longrightarrow>
      generate_response h eng user_input history rnd = APOLOGY)"
proof (intro conjI impI)
  show "\<not> propagates (chat rt h eng request rnd now)"
    by (simp add: chat_def except_500_not_propagates)
  show "\<not> propagates (get_model_info_endpoint rt h eng)"
    by (simp add: get_model_info_endpoint_def except_500_not_propagates)
  show "\<not> propagates (clear_model_cache rt eng)"
    by (simp add: clear_model_cache_def except_500_not_propagates)
  show "\<not> propagates (fst (get_config_endpoint rt h eng))"
    by (simp add: get_config_endpoint_def propagates_def split: sum.splits prod.splits)
next
  assume "chat_try h eng request rnd now = Inl e"
  then show "chat rt h eng request rnd now = HTTPException 500 (exc_str rt e)"
    by (simp add: chat_def except_500_def)
next
  assume "get_model_info h eng = Inl e"
  then show "get_model_info_endpoint rt h eng = HTTPException 500 (exc_str rt e)"
    by (simp add: get_model_info_endpoint_def except_500_def)
next
  assume "clear_cache rt eng = Inl e"
  then show "clear_model_cache rt eng = HTTPException 500 (exc_str rt e)"
    by (simp add: clear_model_cache_def except_500_def exn_bind_def)
next
  assume "fst (get_config_try h eng) = Inl e"
  then show "fst (get_config_endpoint rt h eng) = HTTPException 500 (exc_str rt e)"
    by (cases "get_config_try h eng") (simp add: get_config_endpoint_def)
next
  assume "strip user_input \<noteq> [] \<and>
    (case model eng of
       None \<Rightarrow> fallback_response eng user_input rnd
     | Some m \<Rightarrow> generate_model_response h eng user_input history rnd) = Inl e"
  then show "generate_response h eng user_input history rnd = APOLOGY"
    by (simp add: generate_response_def)
qed

theorem handlers_catch_exceptions_witness:
  "chat broken_runtime default_heap broken_engine hello_request 0 0 =
     HTTPException 500 ''CUDA error'' \<and>
   get_model_info_endpoint broken_runtime default_heap broken_engine =
     HTTPException 500 ''CUDA error'' \<and>
   clear_model_cache broken_runtime broken_engine = HTTPException 500 ''CUDA error'' \<and>
   fst (get_config_endpoint broken_runtime empty_file_heap broken_engine) =
     HTTPException 500 ''no such attribute'' \<and>
   generate_response default_heap broken_engine ''weather'' None 0 = APOLOGY"
proof -
  let ?e = "LibraryError ''CUDA error''"
  have info: "get_model_info default_heap broken_engine = Inl ?e"
    by (simp add: get_model_info_def engine_defs)
  have body: "chat_try default_heap broken_engine hello_request 0 0 = Inl ?e"
    by (simp add: chat_try_def info exn_bind_def)
  have cache: "clear_cache broken_runtime broken_engine = Inl ?e"
    by (simp add: clear_cache_def engine_defs)
  have cfg: "fst (get_config_try empty_file_heap broken_engine) = Inl AttributeError"
    by (simp add: get_config_try_def obj_copy_def get_config_def empty_file_heap_def
        engine_defs)
  have gen: "strip ''weather'' \<noteq> [] \<and>
    (case model broken_engine of
       None \<Rightarrow> fallback_response broken_engine ''weather'' 0
     | Some m \<Rightarrow> generate_model_response default_heap broken_engine ''weather'' None 0) =
    Inl (LibraryError ''CUDA out of memory'')"
    by (simp add: strip_def isspace_def generate_model_response_def generation_kwargs_def
        full_input_def config_item_def engine_defs)
  have str: "exc_str broken_runtime ?e = ''CUDA error''"
    "exc_str broken_runtime AttributeError = ''no such attribute''"
    by (simp_all add: broken_runtime_def)
  show ?thesis
    using handlers_catch_exceptions[of broken_runtime default_heap broken_engine hello_request
        0 0 ?e] info body cache
      handlers_catch_exceptions[of broken_runtime default_heap broken_engine hello_request
        0 0 "LibraryError ''CUDA out of memory''" "''weather''" None] gen
      handlers_catch_exceptions[of broken_runtime empty_file_heap broken_engine hello_request
        0 0 AttributeError] cfg
    by (simp add: str)
qed

text \<open>
  An engine can only be built on a configuration that is a dictionary: the constructor
  subscripts it with \<^verbatim>\<open>'model'\<close> outside any \<^verbatim>\<open>try\<close>.
\<close>

lemma built_engine_config_is_mapping:
  assumes "ai_engine_init rt h cm = Inr eng"
  shows "\<exists>stored. h ! cm_config (config_manager eng) = VDict stored"
proof -
  from assms obtain dev where d: "get_device rt h (get_config cm) = Inr dev"
    and e: "eng = load_model rt h
              \<lparr>config_manager = cm, config = get_config cm, tokenizer = None,
               model = None, device = dev, fallback_responses = None\<rparr>"
    by (auto simp: ai_engine_init_def exn_bind_def split: sum.splits)
  from d obtain sec where "getitem (h ! get_config cm) ''model'' = Inr sec"
    by (auto simp: get_device_def config_item_def exn_bind_def split: sum.splits)
  then have "\<exists>stored. h ! get_config cm = VDict stored" by (rule getitem_Inr_dict)
  moreover have "config_manager eng = cm" using e by (simp add: load_model_config_manager)
  ultimately show ?thesis by (simp add: get_config_def)
qed

lemma offline_engine_built:
  "ai_engine_init offline_runtime default_heap default_manager = Inr offline_engine"
  by (simp add: ai_engine_init_def get_device_def config_item_def get_config_def engine_defs)

text \<open>
  Claim C9. GET /config returns the stored configuration without its top-level
  \<^verbatim>\<open>privacy\<close> section and with every other top-level section as stored; the stored
  configuration object, its \<^verbatim>\<open>privacy\<close> section included, and every other object
  that existed before the request are unchanged.
\<close>

theorem get_config_endpoint_frame:
  assumes "cm_config (config_manager eng) < length h"
    and "h ! cm_config (config_manager eng) = VDict stored"
  shows "\<exists>served h'.
           get_config_endpoint rt h eng = (Returned (VDict served), h') \<and>
           map_of served ''privacy'' = None \<and>
           (\<forall>k. k \<noteq> ''privacy'' \<longrightarrow> map_of served k = map_of stored k) \<and>
           h' ! cm_config (config_manager eng) = VDict stored \<and>
           (\<forall>a < length h. h' ! a = h ! a)"
proof -
  let ?a = "cm_config (config_manager eng)"
  let ?served = "AList.delete ''privacy'' stored"
  let ?h' = "h @ [VDict ?served]"
  have run: "get_config_endpoint rt h eng = (Returned (VDict ?served), ?h')"
    using assms(2)
    by (simp add: get_config_endpoint_def get_config_try_def obj_copy_def obj_pop_def
        get_config_def)
  have old: "\<forall>a < length h. ?h' ! a = h ! a"
    by (simp add: nth_append)
  have "map_of ?served ''privacy'' = None" by (simp add: delete_conv')
  moreover have "\<forall>k. k \<noteq> ''privacy'' \<longrightarrow> map_of ?served k = map_of stored k"
    by (simp add: delete_conv')
  moreover have "?h' ! ?a = VDict stored" using assms old by simp
  ultimately show ?thesis using run old by blast
qed

theorem get_config_endpoint_frame_witness:
  "\<exists>served h'.
     get_config_endpoint offline_runtime default_heap offline_engine =
       (Returned (VDict served), h') \<and>
     map_of served ''privacy'' = None \<and>
     map_of served ''model'' = map_of get_default_config ''model'' \<and>
     h' ! 0 = VDict get_default_config \<and>
     map_of get_default_config ''privacy'' =
       Some (VDict [(''local_processing'', VBool True), (''data_encryption'', VBool False),
                    (''anonymize_logs'', VBool True), (''retention_days'', VInt 90)])"
proof -
  have a: "cm_config (config_manager offline_engine) < length default_heap"
    by (simp add: engine_defs)
  have z: "cm_config (config_manager offline_engine) = 0"
    by (simp add: engine_defs)
  have d: "default_heap ! cm_config (config_manager offline_engine) = VDict get_default_config"
    by (simp add: z default_heap_def)
  have p: "map_of get_default_config ''privacy'' =
       Some (VDict [(''local_processing'', VBool True), (''data_encryption'', VBool False),
                    (''anonymize_logs'', VBool True), (''retention_days'', VInt 90)])"
    by (simp add: get_default_config_def)
  from get_config_endpoint_frame[OF a d, of offline_runtime]
  obtain served h' where
    "get_config_endpoint offline_runtime default_heap offline_engine =
       (Returned (VDict served), h')"
    "map_of served ''privacy'' = None"
    "\<forall>k. k \<noteq> ''privacy'' \<longrightarrow> map_of served k = map_of get_default_config k"
    "h' ! 0 = VDict get_default_config"
    unfolding z by blast
  then show ?thesis using p by auto
qed

text \<open>
  Claim C10. Two POST /chat requests with the same message and conversation history get
  the same result from the handler (for the same randomness and time), whatever their
  \<^verbatim>\<open>temperature\<close> and \<^verbatim>\<open>max_tokens\<close> fields are; and the response of a loaded model is
  what \<^verbatim>\<open>model.generate\<close> returns when called with the configured
  \<^verbatim>\<open>inference.max_new_tokens\<close> and \<^verbatim>\<open>model.temperature\<close> (and the configured
  \<^verbatim>\<open>top_p\<close> and \<^verbatim>\<open>do_sample\<close>), decoded and stripped.
\<close>

theorem chat_ignores_temperature_and_max_tokens:
  assumes "message r1 = message r2"
    and "conversation_history r1 = conversation_history r2"
  shows "chat rt h eng r1 rnd now = chat rt h eng r2 rnd now \<and>
         (tokenizer eng = Some tok \<and> model eng = Some m \<and>
          config_item (h ! config eng) ''model'' ''max_length'' = Inr max_length \<and>
          tok_encode tok (full_input user_input history) max_length = Inr inputs \<and>
          config_item (h ! config eng) ''inference'' ''max_new_tokens'' = Inr mnt \<and>
          config_item (h ! config eng) ''model'' ''temperature'' = Inr temp \<and>
          config_item (h ! config eng) ''model'' ''top_p'' = Inr tp \<and>
          config_item (h ! config eng) ''inference'' ''do_sample'' = Inr ds
          \<longrightarrow>
          generate_model_response h eng user_input history rnd =
            exn_bind
              (lm_generate m inputs
                 \<lparr>kw_max_new_tokens = mnt, kw_temperature = temp, kw_top_p = tp,
                  kw_do_sample = ds, kw_pad_token_id = tok_eos_token_id tok,
                  kw_eos_token_id = tok_eos_token_id tok\<rparr> rnd)
              (\<lambda>outputs.
                 exn_bind (tok_decode tok (drop (length inputs) outputs)) (\<lambda>decoded.
                   Inr (if strip decoded \<noteq> [] then strip decoded else NOT_SURE))))"
proof (intro conjI impI)
  show "chat rt h eng r1 rnd now = chat rt h eng r2 rnd now"
    using assms by (simp add: chat_def chat_try_def)
next
  assume "tokenizer eng = Some tok \<and> model eng = Some m \<and>
          config_item (h ! config eng) ''model'' ''max_length'' = Inr max_length \<and>
          tok_encode tok (full_input user_input history) max_length = Inr inputs \<and>
          config_item (h ! config eng) ''inference'' ''max_new_tokens'' = Inr mnt \<and>
          config_item (h ! config eng) ''model'' ''temperature'' = Inr temp \<and>
          config_item (h ! config eng) ''model'' ''top_p'' = Inr tp \<and>
          config_item (h ! config eng) ''inference'' ''do_sample'' = Inr ds"
  then show "generate_model_response h eng user_input history rnd =
            exn_bind
              (lm_generate m inputs
                 \<lparr>kw_max_new_tokens = mnt, kw_temperature = temp, kw_top_p = tp,
                  kw_do_sample = ds, kw_pad_token_id = tok_eos_token_id tok,
                  kw_eos_token_id = tok_eos_token_id tok\<rparr> rnd)
              (\<lambda>outputs.
                 exn_bind (tok_decode tok (drop (length inputs) outputs)) (\<lambda>decoded.
                   Inr (if strip decoded \<noteq> [] then strip decoded else NOT_SURE)))"
    by (simp add: generate_model_response_def generation_kwargs_def exn_bind_def Let_def)
qed

theorem chat_ignores_temperature_and_max_tokens_witness:
  "chat probe_runtime default_heap probe_engine hot_request 0 0 =
     chat probe_runtime default_heap probe_engine hello_request 0 0 \<and>
   generate_model_response default_heap probe_engine ''hello'' (Some []) 0 =
     Inr ''configured'' \<and>
   response_text (chat probe_runtime default_heap probe_engine hot_request 0 0) =
     Some ''configured''"
proof -
  have m: "message hot_request = message hello_request"
    by (simp add: hot_request_def hello_request_def)
  have c: "conversation_history hot_request = conversation_history hello_request"
    by (simp add: hot_request_def hello_request_def)
  have pre: "tokenizer probe_engine = Some silent_tokenizer \<and>
     model probe_engine = Some probe_lm \<and>
     config_item (default_heap ! config probe_engine) ''model'' ''max_length'' =
       Inr (VInt 1024) \<and>
     tok_encode silent_tokenizer (full_input ''hello'' (Some [])) (VInt 1024) =
       Inr (map of_char ''hello'') \<and>
     config_item (default_heap ! config probe_engine) ''inference'' ''max_new_tokens'' =
       Inr (VInt 128) \<and>
     config_item (default_heap ! config probe_engine) ''model'' ''temperature'' =
       Inr (VFloat (Finite (7 / 10))) \<and>
     config_item (default_heap ! config probe_engine) ''model'' ''top_p'' =
       Inr (VFloat (Finite (9 / 10))) \<and>
     config_item (default_heap ! config probe_engine) ''inference'' ''do_sample'' =
       Inr (VBool True)"
    by (simp add: probe_engine_parts full_input_def config_item_def silent_tokenizer_def
        default_heap_def get_default_config_def exn_bind_def)
  have link: "generate_model_response default_heap probe_engine ''hello'' (Some []) 0 =
     exn_bind
       (lm_generate probe_lm (map of_char ''hello'')
          \<lparr>kw_max_new_tokens = VInt 128, kw_temperature = VFloat (Finite (7 / 10)),
           kw_top_p = VFloat (Finite (9 / 10)), kw_do_sample = VBool True,
           kw_pad_token_id = tok_eos_token_id silent_tokenizer,
           kw_eos_token_id = tok_eos_token_id silent_tokenizer\<rparr> 0)
       (\<lambda>outputs.
          exn_bind (tok_decode silent_tokenizer (drop (length (map of_char ''hello'' :: nat list)) outputs))
            (\<lambda>decoded. Inr (if strip decoded \<noteq> [] then strip decoded else NOT_SURE)))"
    using chat_ignores_temperature_and_max_tokens[OF m c, of probe_runtime default_heap
        probe_engine 0 0 silent_tokenizer probe_lm "VInt 1024" "''hello''" "Some []"
        "map of_char ''hello''" "VInt 128" "VFloat (Finite (7 / 10))"
        "VFloat (Finite (9 / 10))" "VBool True"] pre
    by blast
  have run: "exn_bind
       (lm_generate probe_lm (map of_char ''hello'')
          \<lparr>kw_max_new_tokens = VInt 128, kw_temperature = VFloat (Finite (7 / 10)),
           kw_top_p = VFloat (Finite (9 / 10)), kw_do_sample = VBool True,
           kw_pad_token_id = tok_eos_token_id silent_tokenizer,
           kw_eos_token_id = tok_eos_token_id silent_tokenizer\<rparr> 0)
       (\<lambda>outputs.
          exn_bind (tok_decode silent_tokenizer (drop (length (map of_char ''hello'' :: nat list)) outputs))
            (\<lambda>decoded. Inr (if strip decoded \<noteq> [] then strip decoded else NOT_SURE)))
     = Inr ''configured''"
    by code_simp
  have gen: "generate_model_response default_heap probe_engine ''hello'' (Some []) 0 =
     Inr ''configured''"
    using link run by (rule trans)
  have t: "response_text (chat probe_runtime default_heap probe_engine hello_request 0 0) =
             Some ''configured''"
    using gen
    by (simp add: response_text_def chat_def chat_try_def except_500_def get_model_info_def
        generate_response_def hello_request_def strip_def isspace_def last_n_def
        probe_engine_parts default_heap_def get_default_config_def exn_bind_def probe_lm_def)
  show ?thesis
    using chat_ignores_temperature_and_max_tokens[OF m c, of probe_runtime default_heap
        probe_engine 0 0] gen t
    by simp
qed

end
